theory Spec2Isabelle
  imports Complex_Main "HOL-Library.AList"
begin

section \<open>Exceptions\<close>

text \<open>
  The exception classes raised by \<^verbatim>\<open>inventory_management_system.py\<close>. The three
  subclasses of \<^verbatim>\<open>InventoryError\<close> and the built-in exceptions the operations can
  raise are the constructors; the message strings are left out. A raising call is a
  result \<open>Inl e\<close>, a returning call is \<open>Inr v\<close>.
\<close>

datatype error =
    ValueError
  | KeyError
  | TypeError
  | AttributeError
  | DuplicateProductError
  | InsufficientStockError
  | InvalidProductDataError

definition and_then :: "error + 'a \<Rightarrow> ('a \<Rightarrow> error + 'b) \<Rightarrow> error + 'b" where
  "and_then r f = (case r of Inl e \<Rightarrow> Inl e | Inr v \<Rightarrow> f v)"

section \<open>Decimal text\<close>

text \<open>
  Python's \<^verbatim>\<open>str\<close> on an \<^verbatim>\<open>int\<close> (used by the f-string of the sale id)
  and the zero padding of \<^verbatim>\<open>%04d\<close> and \<^verbatim>\<open>%02d\<close> (used by
  \<^verbatim>\<open>date.isoformat\<close>).
\<close>

definition digit_char :: "nat \<Rightarrow> char" where
  "digit_char n = char_of (48 + n)"

definition digit_val :: "char \<Rightarrow> nat option" where
  "digit_val c =
     (let k = (of_char c :: nat) in if 48 \<le> k \<and> k \<le> 57 then Some (k - 48) else None)"

fun str_nat :: "nat \<Rightarrow> string" where
  "str_nat n = (if n < 10 then [digit_char n] else str_nat (n div 10) @ [digit_char (n mod 10)])"

declare str_nat.simps [simp del]

definition py_str :: "int \<Rightarrow> string" where
  "py_str i = (if i < 0 then CHR ''-'' # str_nat (nat (- i)) else str_nat (nat i))"

definition zero_pad :: "nat \<Rightarrow> string \<Rightarrow> string" where
  "zero_pad w s = replicate (w - length s) CHR ''0'' @ s"

fun parse_digits :: "nat \<Rightarrow> string \<Rightarrow> nat option" where
  "parse_digits acc [] = Some acc"
| "parse_digits acc (c # cs) =
     (case digit_val c of None \<Rightarrow> None | Some d \<Rightarrow> parse_digits (10 * acc + d) cs)"

definition parse_nat :: "string \<Rightarrow> nat option" where
  "parse_nat s = (if s = [] then None else parse_digits 0 s)"

section \<open>Calendar dates\<close>

text \<open>
  The part of \<^verbatim>\<open>datetime.date\<close> the program uses: a date is a year from 1 to 9999,
  a month and a day of the proleptic Gregorian calendar; dates compare as the triple
  (year, month, day); \<^verbatim>\<open>isoformat\<close> prints \<^verbatim>\<open>YYYY-MM-DD\<close> and
  \<^verbatim>\<open>fromisoformat\<close> reads that shape back, raising \<^verbatim>\<open>ValueError\<close> (here
  \<open>None\<close>) on anything else. Newer interpreters read further ISO 8601 shapes as
  well; the text \<^verbatim>\<open>isoformat\<close> prints is read the same way by all of them.
\<close>

record date =
  year :: nat
  month :: nat
  day :: nat

definition is_leap :: "nat \<Rightarrow> bool" where
  "is_leap y = (y mod 4 = 0 \<and> (y mod 100 \<noteq> 0 \<or> y mod 400 = 0))"

definition days_in_month :: "nat \<Rightarrow> nat \<Rightarrow> nat" where
  "days_in_month y m =
     (if m = 2 then (if is_leap y then 29 else 28)
      else if m = 4 \<or> m = 6 \<or> m = 9 \<or> m = 11 then 30 else 31)"

definition valid_date :: "date \<Rightarrow> bool" where
  "valid_date d =
     (1 \<le> year d \<and> year d \<le> 9999 \<and> 1 \<le> month d \<and> month d \<le> 12 \<and>
      1 \<le> day d \<and> day d \<le> days_in_month (year d) (month d))"

definition date_less :: "date \<Rightarrow> date \<Rightarrow> bool" where
  "date_less a b =
     (year a < year b \<or> (year a = year b \<and>
       (month a < month b \<or> (month a = month b \<and> day a < day b))))"

definition isoformat :: "date \<Rightarrow> string" where
  "isoformat d =
     zero_pad 4 (str_nat (year d)) @ ''-'' @ zero_pad 2 (str_nat (month d)) @ ''-'' @
     zero_pad 2 (str_nat (day d))"

definition fromisoformat :: "string \<Rightarrow> date option" where
  "fromisoformat s =
     (if length s = 10 \<and> s ! 4 = CHR ''-'' \<and> s ! 7 = CHR ''-'' then
        (case parse_nat (take 4 s) of None \<Rightarrow> None | Some y \<Rightarrow>
         (case parse_nat (take 2 (drop 5 s)) of None \<Rightarrow> None | Some m \<Rightarrow>
          (case parse_nat (drop 8 s) of None \<Rightarrow> None | Some dd \<Rightarrow>
             (let d = \<lparr>year = y, month = m, day = dd\<rparr>
              in if valid_date d then Some d else None))))
      else None)"

section \<open>JSON values\<close>

text \<open>
  The values the program puts into dictionaries: strings, integers and floats. A
  dictionary keeps its keys in insertion order, so it is an association list;
  \<open>d[k] = v\<close> is \<^const>\<open>AList.update\<close> and \<open>d[k]\<close> raises \<^verbatim>\<open>KeyError\<close> on a
  missing key. A Python \<^verbatim>\<open>float\<close> is idealised as a real number: rounding is not
  part of the model.
\<close>

datatype jval = JStr string | JInt int | JNum real

type_synonym pydict = "(string \<times> jval) list"

definition item_get :: "pydict \<Rightarrow> string \<Rightarrow> error + jval" where
  "item_get d k = (case map_of d k of None \<Rightarrow> Inl KeyError | Some v \<Rightarrow> Inr v)"

text \<open>
  The products of the model are typed as the annotations of the constructors say. A
  dictionary entry of another JSON type than the annotated one has no counterpart among
  the typed products; reading it is \<open>Inl TypeError\<close> here, where the interpreter would
  fail at the first arithmetic on the field. An integer is accepted where a float is
  annotated, as the same number.
\<close>

definition as_str :: "jval \<Rightarrow> error + string" where
  "as_str v = (case v of JStr s \<Rightarrow> Inr s | _ \<Rightarrow> Inl TypeError)"

definition as_int :: "jval \<Rightarrow> error + int" where
  "as_int v = (case v of JInt i \<Rightarrow> Inr i | _ \<Rightarrow> Inl TypeError)"

definition as_float :: "jval \<Rightarrow> error + real" where
  "as_float v = (case v of JNum r \<Rightarrow> Inr r | JInt i \<Rightarrow> Inr (of_int i) | JStr _ \<Rightarrow> Inl TypeError)"

section \<open>Products\<close>

text \<open>
  \<^verbatim>\<open>Product\<close> with its three concrete subclasses: the shared fields are a record,
  the subclass with its own fields is the \<open>variant\<close>.
\<close>

datatype variant =
    Electronic int string
  | Clothing string string
  | Grocery date

record Product =
  product_id :: string
  name :: string
  price :: real
  quantity :: int
  variant :: variant

text \<open>The constructors. None of them checks the price or the quantity.\<close>

definition ElectronicProduct ::
  "string \<Rightarrow> string \<Rightarrow> real \<Rightarrow> int \<Rightarrow> int \<Rightarrow> string \<Rightarrow> Product" where
  "ElectronicProduct pid nm pr qty warranty_years brand =
     \<lparr>product_id = pid, name = nm, price = pr, quantity = qty,
      variant = Electronic warranty_years brand\<rparr>"

definition ClothingProduct ::
  "string \<Rightarrow> string \<Rightarrow> real \<Rightarrow> int \<Rightarrow> string \<Rightarrow> string \<Rightarrow> Product" where
  "ClothingProduct pid nm pr qty sz material =
     \<lparr>product_id = pid, name = nm, price = pr, quantity = qty,
      variant = Clothing sz material\<rparr>"

definition GroceryProduct ::
  "string \<Rightarrow> string \<Rightarrow> real \<Rightarrow> int \<Rightarrow> string \<Rightarrow> error + Product" where
  "GroceryProduct pid nm pr qty expiry_date =
     (case fromisoformat expiry_date of
        None \<Rightarrow> Inl InvalidProductDataError
      | Some d \<Rightarrow> Inr \<lparr>product_id = pid, name = nm, price = pr, quantity = qty,
                       variant = Grocery d\<rparr>)"

text \<open>The \<^verbatim>\<open>quantity\<close> setter, \<^verbatim>\<open>restock\<close>, \<^verbatim>\<open>sell\<close> and \<^verbatim>\<open>get_total_value\<close>.\<close>

definition set_quantity :: "Product \<Rightarrow> int \<Rightarrow> error + Product" where
  "set_quantity p v = (if v < 0 then Inl ValueError else Inr (p\<lparr>quantity := v\<rparr>))"

definition restock :: "Product \<Rightarrow> int \<Rightarrow> error + Product" where
  "restock p amount =
     (if amount < 0 then Inl ValueError else set_quantity p (quantity p + amount))"

definition sell :: "Product \<Rightarrow> int \<Rightarrow> error + Product" where
  "sell p qty =
     (if qty < 0 then Inl ValueError
      else if qty > quantity p then Inl InsufficientStockError
      else set_quantity p (quantity p - qty))"

definition get_total_value :: "Product \<Rightarrow> real" where
  "get_total_value p = price p * of_int (quantity p)"

definition is_expired :: "date \<Rightarrow> date \<Rightarrow> bool" where
  \<comment> \<open>\<^verbatim>\<open>date.today() > self._expiry_date\<close>; the first argument is today's date.\<close>
  "is_expired today expiry = date_less expiry today"

subsection \<open>Serialisation\<close>

definition class_name :: "Product \<Rightarrow> string" where
  "class_name p =
     (case variant p of
        Electronic _ _ \<Rightarrow> ''ElectronicProduct''
      | Clothing _ _ \<Rightarrow> ''ClothingProduct''
      | Grocery _ \<Rightarrow> ''GroceryProduct'')"

definition base_to_dict :: "Product \<Rightarrow> pydict" where
  "base_to_dict p =
     [(''product_id'', JStr (product_id p)),
      (''name'', JStr (name p)),
      (''price'', JNum (price p)),
      (''quantity'', JInt (quantity p)),
      (''type'', JStr (class_name p))]"

definition to_dict :: "Product \<Rightarrow> pydict" where
  "to_dict p =
     (case variant p of
        Electronic warranty_years brand \<Rightarrow>
          AList.update ''brand'' (JStr brand)
            (AList.update ''warranty_years'' (JInt warranty_years) (base_to_dict p))
      | Clothing sz material \<Rightarrow>
          AList.update ''material'' (JStr material)
            (AList.update ''size'' (JStr sz) (base_to_dict p))
      | Grocery expiry \<Rightarrow>
          AList.update ''expiry_date'' (JStr (isoformat expiry)) (base_to_dict p))"

text \<open>
  The body of the loop of \<^verbatim>\<open>load_inventory\<close>: the product built from one entry of
  the file, chosen by the entry's \<^verbatim>\<open>type\<close>.
\<close>

definition get_str :: "pydict \<Rightarrow> string \<Rightarrow> error + string" where
  "get_str item k = and_then (item_get item k) as_str"

definition get_int :: "pydict \<Rightarrow> string \<Rightarrow> error + int" where
  "get_int item k = and_then (item_get item k) as_int"

definition get_float :: "pydict \<Rightarrow> string \<Rightarrow> error + real" where
  "get_float item k = and_then (item_get item k) as_float"

definition load_item :: "pydict \<Rightarrow> error + Product" where
  "load_item item =
     and_then (item_get item ''type'') (\<lambda>ty.
       if ty = JStr ''ElectronicProduct'' then
         and_then (get_str item ''product_id'') (\<lambda>pid.
         and_then (get_str item ''name'') (\<lambda>nm.
         and_then (get_float item ''price'') (\<lambda>pr.
         and_then (get_int item ''quantity'') (\<lambda>qty.
         and_then (get_int item ''warranty_years'') (\<lambda>w.
         and_then (get_str item ''brand'') (\<lambda>b.
           Inr (ElectronicProduct pid nm pr qty w b)))))))
       else if ty = JStr ''ClothingProduct'' then
         and_then (get_str item ''product_id'') (\<lambda>pid.
         and_then (get_str item ''name'') (\<lambda>nm.
         and_then (get_float item ''price'') (\<lambda>pr.
         and_then (get_int item ''quantity'') (\<lambda>qty.
         and_then (get_str item ''size'') (\<lambda>sz.
         and_then (get_str item ''material'') (\<lambda>m.
           Inr (ClothingProduct pid nm pr qty sz m)))))))
       else if ty = JStr ''GroceryProduct'' then
         and_then (get_str item ''product_id'') (\<lambda>pid.
         and_then (get_str item ''name'') (\<lambda>nm.
         and_then (get_float item ''price'') (\<lambda>pr.
         and_then (get_int item ''quantity'') (\<lambda>qty.
         and_then (get_str item ''expiry_date'') (\<lambda>e.
           GroceryProduct pid nm pr qty e)))))
       else Inl InvalidProductDataError)"

section \<open>The program state\<close>

text \<open>
  What the operations read and change: the dictionary \<^verbatim>\<open>Inventory._products\<close>
  (insertion ordered, so an association list), the list \<^verbatim>\<open>Sales._sales_log\<close>, and the
  two backing files \<^verbatim>\<open>inventory.json\<close> and \<^verbatim>\<open>sales.json\<close>. A file is missing,
  present without being a readable JSON array of objects, or holds such an array;
  \<^verbatim>\<open>json.dump\<close> followed by \<^verbatim>\<open>json.load\<close> is taken to give the value back.
  Whether a file can be opened for writing is a fact of the environment, recorded per
  file; a failed write leaves the file as it was. Every operation returns its result
  together with the state it leaves behind, since an exception does not undo the
  assignments made before it. Log output is not modelled.
\<close>

datatype json_file = Missing | Malformed | Content "pydict list"

record system =
  products :: "(string \<times> Product) list"
  sales_log :: "pydict list"
  inventory_file :: json_file
  sales_file :: json_file
  inventory_writable :: bool
  sales_writable :: bool

section \<open>Inventory\<close>

definition save_inventory :: "system \<Rightarrow> (error + unit) \<times> system" where
  "save_inventory st =
     (if inventory_writable st
      then (Inr (), st\<lparr>inventory_file := Content (map (\<lambda>kv. to_dict (snd kv)) (products st))\<rparr>)
      else (Inl InvalidProductDataError, st))"

definition get_product :: "system \<Rightarrow> string \<Rightarrow> Product option" where
  "get_product st pid = map_of (products st) pid"

definition add_product :: "Product \<Rightarrow> system \<Rightarrow> (error + unit) \<times> system" where
  "add_product p st =
     (if product_id p \<in> set (map fst (products st))
      then (Inl DuplicateProductError, st)
      else save_inventory (st\<lparr>products := AList.update (product_id p) p (products st)\<rparr>))"

definition remove_product :: "string \<Rightarrow> system \<Rightarrow> (error + unit) \<times> system" where
  "remove_product pid st =
     (if pid \<notin> set (map fst (products st))
      then (Inl ValueError, st)
      else save_inventory (st\<lparr>products := AList.delete pid (products st)\<rparr>))"

text \<open>
  \<^verbatim>\<open>sell_product\<close> and \<^verbatim>\<open>restock_product\<close> change the product object the
  dictionary holds under the key; the entry of the key is replaced here.
\<close>

definition sell_product :: "string \<Rightarrow> int \<Rightarrow> system \<Rightarrow> (error + real) \<times> system" where
  "sell_product pid qty st =
     (case get_product st pid of
        None \<Rightarrow> (Inl ValueError, st)
      | Some p \<Rightarrow>
          (case sell p qty of
             Inl e \<Rightarrow> (Inl e, st)
           | Inr p' \<Rightarrow>
               (case save_inventory (st\<lparr>products := AList.update pid p' (products st)\<rparr>) of
                  (Inl e, st') \<Rightarrow> (Inl e, st')
                | (Inr _, st') \<Rightarrow> (Inr (price p' * of_int qty), st'))))"

definition restock_product :: "string \<Rightarrow> int \<Rightarrow> system \<Rightarrow> (error + unit) \<times> system" where
  "restock_product pid qty st =
     (case get_product st pid of
        None \<Rightarrow> (Inl ValueError, st)
      | Some p \<Rightarrow>
          (case restock p qty of
             Inl e \<Rightarrow> (Inl e, st)
           | Inr p' \<Rightarrow> save_inventory (st\<lparr>products := AList.update pid p' (products st)\<rparr>)))"

definition total_inventory_value :: "system \<Rightarrow> real" where
  \<comment> \<open>\<^verbatim>\<open>sum\<close> adds from the left, starting at 0, in the order of the dictionary.\<close>
  "total_inventory_value st =
     foldl (+) 0 (map (\<lambda>kv. get_total_value (snd kv)) (products st))"

definition expired_grocery :: "date \<Rightarrow> Product \<Rightarrow> bool" where
  \<comment> \<open>\<^verbatim>\<open>isinstance(p, GroceryProduct) and p.is_expired()\<close>\<close>
  "expired_grocery today p =
     (case variant p of Grocery expiry \<Rightarrow> is_expired today expiry | _ \<Rightarrow> False)"

fun remove_each :: "string list \<Rightarrow> system \<Rightarrow> (error + unit) \<times> system" where
  "remove_each [] st = (Inr (), st)"
| "remove_each (pid # pids) st =
     (case remove_product pid st of
        (Inl e, st') \<Rightarrow> (Inl e, st')
      | (Inr _, st') \<Rightarrow> remove_each pids st')"

definition remove_expired_products :: "date \<Rightarrow> system \<Rightarrow> (error + unit) \<times> system" where
  "remove_expired_products today st =
     (let expired_ids =
            map (\<lambda>kv. product_id (snd kv))
              (filter (\<lambda>kv. expired_grocery today (snd kv)) (products st))
      in remove_each expired_ids st)"

fun load_items :: "pydict list \<Rightarrow> system \<Rightarrow> (error + unit) \<times> system" where
  "load_items [] st = (Inr (), st)"
| "load_items (item # items) st =
     (case load_item item of
        Inl e \<Rightarrow> (Inl InvalidProductDataError, st)
      | Inr p \<Rightarrow> load_items items (st\<lparr>products := AList.update (product_id p) p (products st)\<rparr>))"

definition load_inventory :: "system \<Rightarrow> (error + unit) \<times> system" where
  "load_inventory st =
     (case inventory_file st of
        Missing \<Rightarrow> (Inr (), st)
      | Malformed \<Rightarrow> (Inl InvalidProductDataError, st)
      | Content items \<Rightarrow> load_items items st)"

section \<open>Sales\<close>

definition save_sales :: "system \<Rightarrow> (error + unit) \<times> system" where
  "save_sales st =
     (if sales_writable st
      then (Inr (), st\<lparr>sales_file := Content (sales_log st)\<rparr>)
      else (Inl InvalidProductDataError, st))"

definition load_sales :: "system \<Rightarrow> (error + unit) \<times> system" where
  "load_sales st =
     (case sales_file st of
        Missing \<Rightarrow> (Inr (), st)
      | Malformed \<Rightarrow> (Inl InvalidProductDataError, st)
      | Content records \<Rightarrow> (Inr (), st\<lparr>sales_log := records\<rparr>))"

definition Sales_init :: "system \<Rightarrow> (error + unit) \<times> system" where
  \<comment> \<open>\<^verbatim>\<open>Sales.__init__\<close>: an empty log, then \<^verbatim>\<open>load_sales\<close>.\<close>
  "Sales_init st = load_sales (st\<lparr>sales_log := []\<rparr>)"

definition sale_record ::
  "nat \<Rightarrow> string \<Rightarrow> string \<Rightarrow> int \<Rightarrow> real \<Rightarrow> string \<Rightarrow> pydict" where
  "sale_record n pid nm qty total_price now =
     [(''sale_id'', JStr (''SALE_'' @ py_str (int n + 1))),
      (''product_id'', JStr pid),
      (''product_name'', JStr nm),
      (''quantity'', JInt qty),
      (''total_price'', JNum total_price),
      (''timestamp'', JStr now)]"

text \<open>
  \<^verbatim>\<open>process_sale\<close>; \<open>now\<close> is the text of \<^verbatim>\<open>datetime.now().isoformat()\<close> at
  the call.
\<close>

definition process_sale ::
  "string \<Rightarrow> int \<Rightarrow> string \<Rightarrow> system \<Rightarrow> (error + real) \<times> system" where
  "process_sale pid qty now st =
     (case sell_product pid qty st of
        (Inl e, st1) \<Rightarrow> (Inl e, st1)
      | (Inr total_price, st1) \<Rightarrow>
          (case get_product st1 pid of
             None \<Rightarrow> (Inl AttributeError, st1)
           | Some p \<Rightarrow>
               (case save_sales
                       (st1\<lparr>sales_log := sales_log st1 @
                          [sale_record (length (sales_log st1)) pid (name p) qty total_price now]\<rparr>) of
                  (Inl e, st2) \<Rightarrow> (Inl e, st2)
                | (Inr _, st2) \<Rightarrow> (Inr total_price, st2))))"

section \<open>Callers\<close>

text \<open>
  The shells call the operations one after another. \<open>process_sales\<close> is a run of
  \<^verbatim>\<open>process_sale\<close> calls that ends at the first call that raises; \<open>stock_trace\<close> lists
  the states a single product goes through under a run of \<^verbatim>\<open>restock\<close> and
  \<^verbatim>\<open>sell\<close> calls, where a call that raises is caught by the shell and leaves the
  product as it was.
\<close>

fun process_sales ::
  "(string \<times> int \<times> string) list \<Rightarrow> system \<Rightarrow> (error + real list) \<times> system" where
  "process_sales [] st = (Inr [], st)"
| "process_sales ((pid, qty, now) # rest) st =
     (case process_sale pid qty now st of
        (Inl e, st1) \<Rightarrow> (Inl e, st1)
      | (Inr t, st1) \<Rightarrow>
          (case process_sales rest st1 of
             (Inl e, st2) \<Rightarrow> (Inl e, st2)
           | (Inr ts, st2) \<Rightarrow> (Inr (t # ts), st2)))"

definition sale_id :: "pydict \<Rightarrow> jval option" where
  "sale_id r = map_of r ''sale_id''"

datatype stock_op = Restock int | Sell int

definition apply_stock_op :: "Product \<Rightarrow> stock_op \<Rightarrow> error + Product" where
  "apply_stock_op p c = (case c of Restock amount \<Rightarrow> restock p amount | Sell qty \<Rightarrow> sell p qty)"

fun stock_trace :: "Product \<Rightarrow> stock_op list \<Rightarrow> Product list" where
  "stock_trace p [] = [p]"
| "stock_trace p (c # cs) =
     p # stock_trace (case apply_stock_op p c of Inl e \<Rightarrow> p | Inr p' \<Rightarrow> p') cs"

section \<open>Invariant of the store\<close>

text \<open>
  The keys of \<^verbatim>\<open>_products\<close> are distinct, as the keys of a dictionary are, and every
  product is stored under its own id: the only assignments are
  \<^verbatim>\<open>self._products[product.product_id] = product\<close>.
\<close>

definition store_ok :: "(string \<times> Product) list \<Rightarrow> bool" where
  "store_ok ps = (distinct (map fst ps) \<and> list_all (\<lambda>kv. product_id (snd kv) = fst kv) ps)"

section \<open>Products the constructors build\<close>

text \<open>
  \<^verbatim>\<open>GroceryProduct\<close> keeps the date \<^verbatim>\<open>fromisoformat\<close> returns, which is a date of
  the calendar; the other fields are kept as given.
\<close>

definition constructible :: "Product \<Rightarrow> bool" where
  "constructible p = (case variant p of Grocery d \<Rightarrow> valid_date d | _ \<Rightarrow> True)"

section \<open>Example states\<close>

definition example_tablet :: Product where
  "example_tablet = ElectronicProduct ''e3'' ''Tablet'' 499.99 5 1 ''Samsung''"

definition example_milk :: Product where
  "example_milk =
     \<lparr>product_id = ''g1'', name = ''Milk'', price = 2.99, quantity = 10,
      variant = Grocery \<lparr>year = 2000, month = 1, day = 1\<rparr>\<rparr>"

definition example_system :: system where
  "example_system =
     \<lparr>products = [(''e3'', example_tablet), (''g1'', example_milk)], sales_log = [],
      inventory_file = Missing, sales_file = Missing,
      inventory_writable = True, sales_writable = True\<rparr>"

definition example_monitor :: Product where
  \<comment> \<open>a product built with a negative quantity, which the constructor accepts\<close>
  "example_monitor = ElectronicProduct ''e4'' ''Monitor'' 0 (- 5) 2 ''LG''"

definition example_negative_stock :: system where
  "example_negative_stock =
     \<lparr>products = [(''e4'', example_monitor)], sales_log = [],
      inventory_file = Missing, sales_file = Missing,
      inventory_writable = True, sales_writable = True\<rparr>"

definition example_sales :: "(string \<times> int \<times> string) list" where
  "example_sales =
     [(''e3'', 2, ''2024-06-01T10:00:00''), (''g1'', 1, ''2024-06-01T10:05:00''),
      (''e3'', 3, ''2024-06-01T10:10:00'')]"

section \<open>Facts about the store\<close>

lemma update_fresh: "k \<notin> set (map fst al) \<Longrightarrow> AList.update k v al = al @ [(k, v)]"
  by (induction al) auto

lemma example_system_facts:
  "get_product example_system ''e3'' = Some example_tablet"
  "get_product example_system ''g1'' = Some example_milk"
  "get_product example_system ''e4'' = None"
  "inventory_writable example_system"
  "sales_writable example_system"
  "sales_log example_system = []"
  "products example_system = [(''e3'', example_tablet), (''g1'', example_milk)]"
  by (simp_all add: get_product_def example_system_def)

lemma example_tablet_facts:
  "product_id example_tablet = ''e3''"
  "name example_tablet = ''Tablet''"
  "price example_tablet = 499.99"
  "quantity example_tablet = 5"
  by (simp_all add: example_tablet_def ElectronicProduct_def)

lemma example_monitor_facts:
  "product_id example_monitor = ''e4''"
  "price example_monitor = 0"
  "quantity example_monitor = - 5"
  by (simp_all add: example_monitor_def ElectronicProduct_def)

lemma example_negative_stock_facts:
  "get_product example_negative_stock ''e4'' = Some example_monitor"
  "inventory_writable example_negative_stock"
  by (simp_all add: get_product_def example_negative_stock_def)

lemma add_fresh:
  assumes "product_id p \<notin> set (map fst (products st))"
  shows "products (snd (add_product p st)) = products st @ [(product_id p, p)]"
    and "get_product (snd (add_product p st)) (product_id p) = Some p"
    and "\<And>k. k \<noteq> product_id p \<Longrightarrow> get_product (snd (add_product p st)) k = get_product st k"
    and "inventory_writable st \<Longrightarrow> fst (add_product p st) = Inr ()"
proof -
  show "products (snd (add_product p st)) = products st @ [(product_id p, p)]"
    using assms by (simp add: add_product_def save_inventory_def update_fresh del: set_map)
  show "get_product (snd (add_product p st)) (product_id p) = Some p"
    using assms by (simp add: add_product_def save_inventory_def get_product_def update_conv')
  show "get_product (snd (add_product p st)) k = get_product st k" if "k \<noteq> product_id p" for k
    using assms that by (simp add: add_product_def save_inventory_def get_product_def update_conv')
  show "fst (add_product p st) = Inr ()" if "inventory_writable st"
    using assms that by (simp add: add_product_def save_inventory_def)
qed

text \<open>
  When the inventory file cannot be written, \<^verbatim>\<open>sell_product\<close> raises after the stock
  has been reduced in memory.
\<close>

lemma sell_product_unwritable:
  assumes "get_product st pid = Some p" and "0 \<le> q" and "q \<le> quantity p"
    and "\<not> inventory_writable st"
  shows "sell_product pid q st =
    (Inl InvalidProductDataError,
     st\<lparr>products := AList.update pid (p\<lparr>quantity := quantity p - q\<rparr>) (products st)\<rparr>)"
  using assms
  by (simp add: sell_product_def sell_def set_quantity_def save_inventory_def)

section \<open>Selling\<close>

text \<open>
  C1. For a product of price \<open>p\<close> and stock \<open>s\<close> that is in the inventory, and a quantity
  \<open>q\<close> with \<open>0 \<le> q \<le> s\<close>, \<^verbatim>\<open>Inventory.sell_product\<close> returns \<open>p * q\<close> and leaves the
  product with stock \<open>s - q\<close> and its other fields as they were; the other products
  are not touched. The call returns when the inventory file can be written.
\<close>

theorem sell_product_decreases_and_returns_total:
  assumes "get_product st pid = Some p" and "0 \<le> q" and "q \<le> quantity p"
    and "inventory_writable st"
  shows "\<exists>st'. sell_product pid q st = (Inr (price p * of_int q), st') \<and>
     get_product st' pid = Some (p\<lparr>quantity := quantity p - q\<rparr>) \<and>
     (\<forall>k. k \<noteq> pid \<longrightarrow> get_product st' k = get_product st k)"
  using assms
  by (simp add: sell_product_def sell_def set_quantity_def save_inventory_def get_product_def
      update_conv')

theorem sell_product_decreases_and_returns_total_witness:
  "get_product example_system ''e3'' = Some example_tablet \<and>
   (0::int) \<le> 2 \<and> 2 \<le> quantity example_tablet \<and> inventory_writable example_system \<and>
   fst (sell_product ''e3'' 2 example_system) = Inr (499.99 * 2) \<and>
   map_option quantity (get_product (snd (sell_product ''e3'' 2 example_system)) ''e3'') = Some 3 \<and>
   get_product (snd (sell_product ''e3'' 2 example_system)) ''g1'' = Some example_milk"
proof -
  have h2: "(2::int) \<le> quantity example_tablet"
    by (simp add: example_tablet_facts)
  from sell_product_decreases_and_returns_total
         [OF example_system_facts(1) _ h2 example_system_facts(4)]
  show ?thesis
    using example_system_facts example_tablet_facts by auto
qed

text \<open>
  C2, as the code has it. \<^verbatim>\<open>Product.sell\<close> tests for a negative quantity before it
  compares with the stock. For every product and every quantity \<open>q \<ge> 0\<close> greater than
  the stock, \<^verbatim>\<open>sell\<close> and \<^verbatim>\<open>sell_product\<close> raise \<^verbatim>\<open>InsufficientStockError\<close>
  and the state is the one before the call; for \<open>q < 0\<close> they raise \<^verbatim>\<open>ValueError\<close>,
  again with the state unchanged.
\<close>

theorem sell_over_stock_fails_unchanged:
  "(0 \<le> q \<and> quantity p < q \<longrightarrow>
      sell p q = Inl InsufficientStockError \<and>
      (get_product st pid = Some p \<longrightarrow>
         sell_product pid q st = (Inl InsufficientStockError, st))) \<and>
   (q < 0 \<longrightarrow>
      sell p q = Inl ValueError \<and>
      (get_product st pid = Some p \<longrightarrow> sell_product pid q st = (Inl ValueError, st)))"
  by (simp add: sell_def sell_product_def)

theorem sell_over_stock_fails_unchanged_witness:
  "(0::int) \<le> 6 \<and> quantity example_tablet < 6 \<and>
   get_product example_system ''e3'' = Some example_tablet \<and>
   sell example_tablet 6 = Inl InsufficientStockError \<and>
   sell_product ''e3'' 6 example_system = (Inl InsufficientStockError, example_system) \<and>
   (- 1::int) < 0 \<and>
   sell example_tablet (- 1) = Inl ValueError \<and>
   sell_product ''e3'' (- 1) example_system = (Inl ValueError, example_system)"
  using sell_over_stock_fails_unchanged [of 6 example_tablet example_system "''e3''"]
    sell_over_stock_fails_unchanged [of "- 1" example_tablet example_system "''e3''"]
    example_system_facts(1) example_tablet_facts(4)
  by simp

text \<open>
  The claim as the specification words it, for every quantity above the stock, fails
  where both are negative: a product built with stock \<open>-5\<close> and a sale of \<open>-2\<close> units
  raise \<^verbatim>\<open>ValueError\<close>, not \<^verbatim>\<open>InsufficientStockError\<close>.
\<close>

theorem sell_negative_over_negative_stock_counterexample:
  "quantity example_monitor < - 2 \<and>
   sell example_monitor (- 2) \<noteq> Inl InsufficientStockError \<and>
   get_product example_negative_stock ''e4'' = Some example_monitor \<and>
   fst (sell_product ''e4'' (- 2) example_negative_stock) \<noteq> Inl InsufficientStockError"
  by (simp add: sell_def sell_product_def example_negative_stock_facts example_monitor_facts)

text \<open>
  C10, as the code has it. Selling 0 units of a product that is in the inventory with a
  stock that is not negative returns 0 and leaves the stock, and the whole dictionary,
  as it was. The call returns when the inventory file can be written.
\<close>

theorem sell_zero_accepted:
  assumes "get_product st pid = Some p" and "0 \<le> quantity p" and "inventory_writable st"
  shows "\<exists>st'. sell_product pid 0 st = (Inr 0, st') \<and> products st' = products st \<and>
     get_product st' pid = Some p"
  using assms
  by (simp add: sell_product_def sell_def set_quantity_def save_inventory_def get_product_def
      update_triv)

theorem sell_zero_accepted_witness:
  "get_product example_system ''e3'' = Some example_tablet \<and> 0 \<le> quantity example_tablet \<and>
   inventory_writable example_system \<and>
   fst (sell_product ''e3'' 0 example_system) = Inr 0 \<and>
   get_product (snd (sell_product ''e3'' 0 example_system)) ''e3'' = Some example_tablet"
proof -
  have h2: "0 \<le> quantity example_tablet"
    by (simp add: example_tablet_facts)
  from sell_zero_accepted [OF example_system_facts(1) h2 example_system_facts(4)]
  show ?thesis
    using example_system_facts h2 by auto
qed

text \<open>
  With a negative stock, which the constructors accept, a sale of 0 units is refused:
  \<open>0 > -5\<close>, so \<^verbatim>\<open>sell\<close> raises \<^verbatim>\<open>InsufficientStockError\<close>.
\<close>

theorem sell_zero_negative_stock_counterexample:
  "get_product example_negative_stock ''e4'' = Some example_monitor \<and>
   inventory_writable example_negative_stock \<and>
   sell_product ''e4'' 0 example_negative_stock =
     (Inl InsufficientStockError, example_negative_stock)"
  by (simp add: sell_def sell_product_def example_negative_stock_facts example_monitor_facts)

section \<open>Adding and looking up\<close>

text \<open>
  C3. When the id of the product is a key of the dictionary, \<^verbatim>\<open>add_product\<close> raises
  \<^verbatim>\<open>DuplicateProductError\<close> and changes nothing. When it is not, the product is
  stored under its id, after the entries already there, and the call returns when the
  inventory file can be written.
\<close>

theorem add_product_duplicate_or_insert:
  "(product_id p \<in> fst ` set (products st) \<longrightarrow>
      add_product p st = (Inl DuplicateProductError, st)) \<and>
   (product_id p \<notin> fst ` set (products st) \<longrightarrow>
      products (snd (add_product p st)) = products st @ [(product_id p, p)] \<and>
      get_product (snd (add_product p st)) (product_id p) = Some p \<and>
      (inventory_writable st \<longrightarrow> fst (add_product p st) = Inr ()))"
proof (intro conjI impI)
  assume "product_id p \<in> fst ` set (products st)"
  then show "add_product p st = (Inl DuplicateProductError, st)"
    by (simp add: add_product_def)
next
  assume "product_id p \<notin> fst ` set (products st)"
  then have f: "product_id p \<notin> set (map fst (products st))" by simp
  show "products (snd (add_product p st)) = products st @ [(product_id p, p)]"
    by (rule add_fresh(1) [OF f])
  show "get_product (snd (add_product p st)) (product_id p) = Some p"
    by (rule add_fresh(2) [OF f])
  show "fst (add_product p st) = Inr ()" if "inventory_writable st"
    by (rule add_fresh(4) [OF f that])
qed

theorem add_product_duplicate_or_insert_witness:
  "product_id example_tablet \<in> fst ` set (products example_system) \<and>
   add_product example_tablet example_system = (Inl DuplicateProductError, example_system) \<and>
   product_id example_monitor \<notin> fst ` set (products example_system) \<and>
   inventory_writable example_system \<and>
   products (snd (add_product example_monitor example_system)) =
     [(''e3'', example_tablet), (''g1'', example_milk), (''e4'', example_monitor)] \<and>
   fst (add_product example_monitor example_system) = Inr ()"
  using add_product_duplicate_or_insert [of example_tablet example_system]
    add_product_duplicate_or_insert [of example_monitor example_system]
  by (simp add: example_system_facts example_tablet_facts example_monitor_facts)

text \<open>
  C4. After \<^verbatim>\<open>add_product\<close> of a product whose id was not in the inventory,
  \<^verbatim>\<open>get_product\<close> of that id gives the product, with its name, price and quantity;
  \<^verbatim>\<open>get_product\<close> of an id that is not a key gives \<open>None\<close>, which is a value and not
  an exception.
\<close>

theorem add_then_get_round_trip:
  "(product_id p \<notin> fst ` set (products st) \<longrightarrow>
      (\<exists>p'. get_product (snd (add_product p st)) (product_id p) = Some p' \<and>
         name p' = name p \<and> price p' = price p \<and> quantity p' = quantity p \<and> p' = p) \<and>
      (inventory_writable st \<longrightarrow> fst (add_product p st) = Inr ())) \<and>
   (pid \<notin> fst ` set (products st) \<longrightarrow> get_product st pid = None)"
proof (intro conjI impI)
  assume "product_id p \<notin> fst ` set (products st)"
  then have f: "product_id p \<notin> set (map fst (products st))" by simp
  show "\<exists>p'. get_product (snd (add_product p st)) (product_id p) = Some p' \<and>
         name p' = name p \<and> price p' = price p \<and> quantity p' = quantity p \<and> p' = p"
    using add_fresh(2) [OF f] by simp
  show "fst (add_product p st) = Inr ()" if "inventory_writable st"
    by (rule add_fresh(4) [OF f that])
next
  assume "pid \<notin> fst ` set (products st)"
  then show "get_product st pid = None"
    by (simp add: get_product_def map_of_eq_None_iff)
qed

theorem add_then_get_round_trip_witness:
  "product_id example_monitor \<notin> fst ` set (products example_system) \<and>
   inventory_writable example_system \<and>
   get_product (snd (add_product example_monitor example_system)) ''e4'' = Some example_monitor \<and>
   fst (add_product example_monitor example_system) = Inr () \<and>
   ''zz'' \<notin> fst ` set (products example_system) \<and>
   get_product example_system ''zz'' = None"
  using add_then_get_round_trip [of example_monitor example_system "''zz''"]
  by (simp add: example_system_facts example_monitor_facts)

section \<open>Total value\<close>

lemma foldl_plus_sum_list: "foldl (+) a xs = a + sum_list (xs :: real list)"
  by (induction xs arbitrary: a) (simp_all add: add.assoc)

text \<open>
  C5. \<^verbatim>\<open>total_inventory_value\<close> is the sum of price times quantity over the stored
  products. An inventory that holds a clothing item at 19.99 with 3 in stock and an
  electronic item at 49.99 with 2 in stock, in either order, is worth
  \<open>19.99 * 3 + 49.99 * 2\<close>.
\<close>

theorem total_inventory_value_is_sum:
  "total_inventory_value st =
     (\<Sum>kv \<leftarrow> products st. price (snd kv) * of_int (quantity (snd kv))) \<and>
   total_inventory_value
     (st\<lparr>products := [(k1, ClothingProduct k1 n1 19.99 3 sz m),
                       (k2, ElectronicProduct k2 n2 49.99 2 w b)]\<rparr>) = 19.99 * 3 + 49.99 * 2 \<and>
   total_inventory_value
     (st\<lparr>products := [(k2, ElectronicProduct k2 n2 49.99 2 w b),
                       (k1, ClothingProduct k1 n1 19.99 3 sz m)]\<rparr>) = 19.99 * 3 + 49.99 * 2"
  by (simp add: total_inventory_value_def get_total_value_def foldl_plus_sum_list
      ClothingProduct_def ElectronicProduct_def)

section \<open>The invariant holds in every state the operations reach\<close>

lemma store_ok_Nil: "store_ok []"
  by (simp add: store_ok_def)

lemma set_update_subset: "set (AList.update k v ps) \<subseteq> insert (k, v) (set ps)"
  by (induction ps) auto

lemma store_ok_update:
  assumes "store_ok ps" and "product_id v = k"
  shows "store_ok (AList.update k v ps)"
proof -
  from assms(1) have d: "distinct (map fst ps)" and ids: "\<forall>x \<in> set ps. product_id (snd x) = fst x"
    by (simp_all add: store_ok_def list_all_iff)
  have "\<forall>x \<in> set (AList.update k v ps). product_id (snd x) = fst x"
    using set_update_subset [of k v ps] ids assms(2) by auto
  with d show ?thesis
    by (simp add: store_ok_def list_all_iff distinct_update)
qed

lemma store_ok_delete:
  assumes "store_ok ps"
  shows "store_ok (AList.delete k ps)"
proof -
  from assms have d: "distinct (map fst ps)" and ids: "\<forall>x \<in> set ps. product_id (snd x) = fst x"
    by (simp_all add: store_ok_def list_all_iff)
  have "set (AList.delete k ps) \<subseteq> set ps"
    by (auto simp add: AList.delete_eq)
  with ids have "\<forall>x \<in> set (AList.delete k ps). product_id (snd x) = fst x"
    by blast
  with distinct_delete [OF d, of k] show ?thesis
    by (simp add: store_ok_def list_all_iff)
qed

lemma store_ok_lookup:
  assumes "store_ok ps" and "map_of ps k = Some p"
  shows "product_id p = k"
  using assms map_of_SomeD [OF assms(2)]
  by (auto simp add: store_ok_def list_all_iff)

lemma save_inventory_products: "products (snd (save_inventory st)) = products st"
  by (simp add: save_inventory_def)

lemma add_product_store_ok:
  "store_ok (products st) \<Longrightarrow> store_ok (products (snd (add_product p st)))"
  by (simp add: add_product_def save_inventory_products store_ok_update)

lemma remove_product_store_ok:
  "store_ok (products st) \<Longrightarrow> store_ok (products (snd (remove_product pid st)))"
  by (simp add: remove_product_def save_inventory_products store_ok_delete)

lemma sell_product_id: "sell p q = Inr p' \<Longrightarrow> product_id p' = product_id p"
  by (auto simp add: sell_def set_quantity_def split: if_splits)

lemma restock_product_id: "restock p q = Inr p' \<Longrightarrow> product_id p' = product_id p"
  by (auto simp add: restock_def set_quantity_def split: if_splits)

lemma sell_product_store_ok:
  assumes "store_ok (products st)"
  shows "store_ok (products (snd (sell_product pid q st)))"
proof (cases "get_product st pid")
  case None
  then show ?thesis using assms by (simp add: sell_product_def)
next
  case (Some p)
  then have k: "product_id p = pid"
    using assms by (simp add: get_product_def store_ok_lookup)
  show ?thesis
  proof (cases "sell p q")
    case (Inl e)
    with Some assms show ?thesis by (simp add: sell_product_def)
  next
    case (Inr p')
    with k have "product_id p' = pid" by (simp add: sell_product_id)
    with assms have "store_ok (AList.update pid p' (products st))"
      by (simp add: store_ok_update)
    with Some Inr show ?thesis
      by (simp add: sell_product_def save_inventory_def split: prod.splits sum.splits if_splits)
  qed
qed

lemma restock_product_store_ok:
  assumes "store_ok (products st)"
  shows "store_ok (products (snd (restock_product pid q st)))"
proof (cases "get_product st pid")
  case None
  then show ?thesis using assms by (simp add: restock_product_def)
next
  case (Some p)
  then have k: "product_id p = pid"
    using assms by (simp add: get_product_def store_ok_lookup)
  show ?thesis
  proof (cases "restock p q")
    case (Inl e)
    with Some assms show ?thesis by (simp add: restock_product_def)
  next
    case (Inr p')
    with k have "product_id p' = pid" by (simp add: restock_product_id)
    with assms have "store_ok (AList.update pid p' (products st))"
      by (simp add: store_ok_update)
    with Some Inr show ?thesis
      by (simp add: restock_product_def save_inventory_products)
  qed
qed

lemma load_items_store_ok:
  "store_ok (products st) \<Longrightarrow> store_ok (products (snd (load_items items st)))"
  by (induction items arbitrary: st) (simp_all add: store_ok_update split: sum.splits)

section \<open>Removing expired products\<close>

lemma remove_product_present:
  assumes "pid \<in> set (map fst (products st))" and "inventory_writable st"
  shows "\<exists>st'. remove_product pid st = (Inr (), st') \<and>
     products st' = filter (\<lambda>kv. fst kv \<noteq> pid) (products st) \<and>
     inventory_writable st' \<and> sales_log st' = sales_log st \<and> sales_file st' = sales_file st"
  using assms
  by (auto simp add: remove_product_def save_inventory_def AList.delete_eq case_prod_beta
      intro!: filter_cong)

lemma remove_each_all:
  assumes "set pids \<subseteq> set (map fst (products st))" and "distinct pids"
    and "inventory_writable st"
  shows "\<exists>st'. remove_each pids st = (Inr (), st') \<and>
     products st' = filter (\<lambda>kv. fst kv \<notin> set pids) (products st) \<and>
     sales_log st' = sales_log st \<and> sales_file st' = sales_file st"
  using assms
proof (induction pids arbitrary: st)
  case Nil
  then show ?case by simp
next
  case (Cons pid pids)
  from Cons.prems have "pid \<in> set (map fst (products st))" by simp
  from remove_product_present [OF this Cons.prems(3)]
  obtain st1 where r: "remove_product pid st = (Inr (), st1)"
    and p1: "products st1 = filter (\<lambda>kv. fst kv \<noteq> pid) (products st)"
    and w1: "inventory_writable st1"
    and s1: "sales_log st1 = sales_log st" "sales_file st1 = sales_file st"
    by blast
  have sub: "set pids \<subseteq> set (map fst (products st1))"
  proof
    fix x assume x: "x \<in> set pids"
    with Cons.prems(1) obtain kv where kv: "kv \<in> set (products st)" "fst kv = x" by auto
    from x Cons.prems(2) have "x \<noteq> pid" by auto
    with kv have "kv \<in> set (filter (\<lambda>kv. fst kv \<noteq> pid) (products st))" by simp
    with kv(2) show "x \<in> set (map fst (products st1))" unfolding p1 by force
  qed
  from Cons.prems(2) have d: "distinct pids" by simp
  from Cons.IH [OF sub d w1]
  obtain st2 where r2: "remove_each pids st1 = (Inr (), st2)"
    and p2: "products st2 = filter (\<lambda>kv. fst kv \<notin> set pids) (products st1)"
    and s2: "sales_log st2 = sales_log st1" "sales_file st2 = sales_file st1"
    by blast
  have "products st2 = filter (\<lambda>kv. fst kv \<notin> set (pid # pids)) (products st)"
    unfolding p2 p1 by (auto intro: filter_cong)
  with r r2 s1 s2 show ?case by simp
qed

lemma expired_ids_filter:
  assumes "store_ok ps"
  shows "filter (\<lambda>kv. fst kv \<notin> set (map (\<lambda>kv. product_id (snd kv)) (filter (\<lambda>kv. P (snd kv)) ps))) ps
       = filter (\<lambda>kv. \<not> P (snd kv)) ps"
proof (rule filter_cong [OF refl])
  fix kv assume m: "kv \<in> set ps"
  from assms have d: "distinct (map fst ps)" and ids: "\<forall>x \<in> set ps. product_id (snd x) = fst x"
    by (simp_all add: store_ok_def list_all_iff)
  show "(fst kv \<notin> set (map (\<lambda>kv. product_id (snd kv)) (filter (\<lambda>kv. P (snd kv)) ps))) = (\<not> P (snd kv))"
  proof
    assume a: "fst kv \<notin> set (map (\<lambda>kv. product_id (snd kv)) (filter (\<lambda>kv. P (snd kv)) ps))"
    show "\<not> P (snd kv)"
    proof
      assume "P (snd kv)"
      with m have "product_id (snd kv) \<in> set (map (\<lambda>kv. product_id (snd kv)) (filter (\<lambda>kv. P (snd kv)) ps))"
        by force
      with ids m a show False by simp
    qed
  next
    assume n: "\<not> P (snd kv)"
    show "fst kv \<notin> set (map (\<lambda>kv. product_id (snd kv)) (filter (\<lambda>kv. P (snd kv)) ps))"
    proof
      assume "fst kv \<in> set (map (\<lambda>kv. product_id (snd kv)) (filter (\<lambda>kv. P (snd kv)) ps))"
      then obtain x where x: "x \<in> set ps" "P (snd x)" "product_id (snd x) = fst kv" by auto
      with ids have "fst x = fst kv" by simp
      with d x(1) m have "x = kv" by (metis eq_key_imp_eq_value prod.collapse)
      with x(2) n show False by simp
    qed
  qed
qed

lemma expired_ids_distinct:
  assumes "store_ok ps"
  shows "distinct (map (\<lambda>kv. product_id (snd kv)) (filter Q ps))"
    and "set (map (\<lambda>kv. product_id (snd kv)) (filter Q ps)) \<subseteq> set (map fst ps)"
proof -
  from assms have d: "distinct (map fst ps)" and ids: "\<forall>x \<in> set ps. product_id (snd x) = fst x"
    by (simp_all add: store_ok_def list_all_iff)
  have e: "map (\<lambda>kv. product_id (snd kv)) (filter Q ps) = map fst (filter Q ps)"
    using ids by (intro map_cong) auto
  have "distinct (map fst (filter Q ps))"
    using d by (rule distinct_map_filter)
  then show "distinct (map (\<lambda>kv. product_id (snd kv)) (filter Q ps))"
    unfolding e .
  show "set (map (\<lambda>kv. product_id (snd kv)) (filter Q ps)) \<subseteq> set (map fst ps)"
    using ids by auto
qed

lemma expired_grocery_iff:
  "expired_grocery today p \<longleftrightarrow> (\<exists>d. variant p = Grocery d \<and> date_less d today)"
  by (simp add: expired_grocery_def is_expired_def split: variant.splits)



text \<open>
  C6. In a state that satisfies the invariant of the store,
  \<^verbatim>\<open>remove_expired_products\<close> leaves exactly the entries that are not a grocery
  product whose expiry date is before today, each as it was and in the order it had;
  the sales log is not touched. The call returns when the inventory file can be
  written.
\<close>

theorem remove_expired_products_exact:
  assumes "store_ok (products st)" and "inventory_writable st"
  shows "\<exists>st'. remove_expired_products today st = (Inr (), st') \<and>
     products st' =
       filter (\<lambda>kv. \<not> (\<exists>d. variant (snd kv) = Grocery d \<and> date_less d today)) (products st) \<and>
     sales_log st' = sales_log st"
proof -
  let ?ids = "map (\<lambda>kv. product_id (snd kv))
    (filter (\<lambda>kv. expired_grocery today (snd kv)) (products st))"
  from remove_each_all
         [OF expired_ids_distinct(2) [OF assms(1)] expired_ids_distinct(1) [OF assms(1)] assms(2)]
  obtain st' where "remove_each ?ids st = (Inr (), st')"
    and "products st' = filter (\<lambda>kv. fst kv \<notin> set ?ids) (products st)"
    and "sales_log st' = sales_log st"
    by blast
  then show ?thesis
    using expired_ids_filter [OF assms(1), of "expired_grocery today"]
    by (simp add: remove_expired_products_def expired_grocery_iff)
qed

theorem remove_expired_products_exact_witness:
  "store_ok (products example_system) \<and> inventory_writable example_system \<and>
   fst (remove_expired_products \<lparr>year = 2024, month = 6, day = 1\<rparr> example_system) = Inr () \<and>
   products (snd (remove_expired_products \<lparr>year = 2024, month = 6, day = 1\<rparr> example_system)) =
     [(''e3'', example_tablet)]"
proof -
  have h: "store_ok (products example_system)"
    by (simp add: store_ok_def example_system_facts example_tablet_facts example_milk_def)
  from remove_expired_products_exact
         [OF h example_system_facts(4), of "\<lparr>year = 2024, month = 6, day = 1\<rparr>"]
  show ?thesis
    using h
    by (auto simp add: example_system_facts date_less_def
        example_tablet_def ElectronicProduct_def example_milk_def)
qed

section \<open>Price and stock of a product\<close>

lemma apply_stock_op_keeps:
  assumes "0 \<le> quantity p" and "apply_stock_op p c = Inr p'"
  shows "0 \<le> quantity p' \<and> price p' = price p"
  using assms
  by (cases c)
    (auto simp add: apply_stock_op_def restock_def sell_def set_quantity_def split: if_splits)

lemma stock_trace_keeps:
  assumes "0 \<le> quantity p"
  shows "\<forall>p' \<in> set (stock_trace p cs). 0 \<le> quantity p' \<and> price p' = price p"
  using assms
proof (induction cs arbitrary: p)
  case Nil
  then show ?case by simp
next
  case (Cons c cs)
  show ?case
  proof (cases "apply_stock_op p c")
    case (Inl e)
    with Cons.IH [OF Cons.prems] Cons.prems show ?thesis by simp
  next
    case (Inr p1)
    from apply_stock_op_keeps [OF Cons.prems Inr]
    have k: "0 \<le> quantity p1" "price p1 = price p" by simp_all
    from Cons.IH [OF k(1)] k(2) Cons.prems Inr show ?thesis by simp
  qed
qed

text \<open>
  C9, as the code has it. The constructors keep the price they are given, whatever its
  sign. A product whose stock is not negative keeps a stock that is not negative, and
  its price, before and after every call of a run of \<^verbatim>\<open>restock\<close> and \<^verbatim>\<open>sell\<close>
  calls. On such a product a restock by a negative amount and a sale of a negative
  quantity raise \<^verbatim>\<open>ValueError\<close>, a sale above the stock raises
  \<^verbatim>\<open>InsufficientStockError\<close>, and every other call returns with the stock changed by
  exactly the amount; a call that raises leaves the product as it was.
\<close>

theorem price_unchecked_stock_stays_nonnegative:
  "price (ElectronicProduct pid nm pr qty w b) = pr \<and>
   price (ClothingProduct pid nm pr qty sz m) = pr \<and>
   (GroceryProduct pid nm pr qty e = Inr g \<longrightarrow> price g = pr) \<and>
   (0 \<le> quantity p \<longrightarrow>
      (\<forall>p' \<in> set (stock_trace p cs). 0 \<le> quantity p' \<and> price p' = price p)) \<and>
   (0 \<le> quantity p \<longrightarrow>
      (a < 0 \<longrightarrow> apply_stock_op p (Restock a) = Inl ValueError) \<and>
      (0 \<le> a \<longrightarrow> apply_stock_op p (Restock a) = Inr (p\<lparr>quantity := quantity p + a\<rparr>)) \<and>
      (q < 0 \<longrightarrow> apply_stock_op p (Sell q) = Inl ValueError) \<and>
      (quantity p < q \<longrightarrow> apply_stock_op p (Sell q) = Inl InsufficientStockError) \<and>
      (0 \<le> q \<and> q \<le> quantity p \<longrightarrow>
         apply_stock_op p (Sell q) = Inr (p\<lparr>quantity := quantity p - q\<rparr>))) \<and>
   (apply_stock_op p c = Inl err \<longrightarrow> stock_trace p (c # cs) = p # stock_trace p cs) \<and>
   (apply_stock_op p c = Inr p1 \<longrightarrow> stock_trace p (c # cs) = p # stock_trace p1 cs)"
proof -
  have ctor: "price (ElectronicProduct pid nm pr qty w b) = pr \<and>
      price (ClothingProduct pid nm pr qty sz m) = pr \<and>
      (GroceryProduct pid nm pr qty e = Inr g \<longrightarrow> price g = pr)"
    by (auto simp add: ElectronicProduct_def ClothingProduct_def GroceryProduct_def
        split: option.splits)
  have tr: "0 \<le> quantity p \<longrightarrow>
      (\<forall>p' \<in> set (stock_trace p cs). 0 \<le> quantity p' \<and> price p' = price p)"
    using stock_trace_keeps [of p cs] by simp
  have ops: "0 \<le> quantity p \<longrightarrow>
      (a < 0 \<longrightarrow> apply_stock_op p (Restock a) = Inl ValueError) \<and>
      (0 \<le> a \<longrightarrow> apply_stock_op p (Restock a) = Inr (p\<lparr>quantity := quantity p + a\<rparr>)) \<and>
      (q < 0 \<longrightarrow> apply_stock_op p (Sell q) = Inl ValueError) \<and>
      (quantity p < q \<longrightarrow> apply_stock_op p (Sell q) = Inl InsufficientStockError) \<and>
      (0 \<le> q \<and> q \<le> quantity p \<longrightarrow>
         apply_stock_op p (Sell q) = Inr (p\<lparr>quantity := quantity p - q\<rparr>))"
    by (simp add: apply_stock_op_def restock_def sell_def set_quantity_def)
  have st: "(apply_stock_op p c = Inl err \<longrightarrow> stock_trace p (c # cs) = p # stock_trace p cs) \<and>
      (apply_stock_op p c = Inr p1 \<longrightarrow> stock_trace p (c # cs) = p # stock_trace p1 cs)"
    by simp
  from ctor tr ops st show ?thesis by blast
qed

theorem price_unchecked_stock_stays_nonnegative_witness:
  "price (ElectronicProduct ''g1'' ''Milk'' (- 1) 10 2 ''LG'') = - 1 \<and>
   GroceryProduct ''g1'' ''Milk'' (- 1) 10 ''2000-01-01'' = Inr (example_milk\<lparr>price := - 1\<rparr>) \<and>
   price (example_milk\<lparr>price := - 1\<rparr>) = - 1 \<and>
   0 \<le> quantity example_tablet \<and>
   list_all (\<lambda>p'. 0 \<le> quantity p' \<and> price p' = 499.99)
     (stock_trace example_tablet [Sell 2, Restock 4, Sell 10, Restock (- 1), Sell 7]) \<and>
   map quantity (stock_trace example_tablet [Sell 2, Restock 4, Sell 10, Restock (- 1), Sell 7]) =
     [5, 3, 7, 7, 7, 0] \<and>
   (- 1::int) < 0 \<and> apply_stock_op example_tablet (Restock (- 1)) = Inl ValueError \<and>
   quantity example_tablet < 10 \<and>
   apply_stock_op example_tablet (Sell 10) = Inl InsufficientStockError \<and>
   stock_trace example_tablet [Sell 10, Sell 2] =
     example_tablet # stock_trace example_tablet [Sell 2] \<and>
   (- 3::int) < 0 \<and> apply_stock_op example_tablet (Sell (- 3)) = Inl ValueError \<and>
   (0::int) \<le> 4 \<and>
   apply_stock_op example_tablet (Restock 4) = Inr (example_tablet\<lparr>quantity := 9\<rparr>) \<and>
   (0::int) \<le> 2 \<and> 2 \<le> quantity example_tablet \<and>
   apply_stock_op example_tablet (Sell 2) = Inr (example_tablet\<lparr>quantity := 3\<rparr>) \<and>
   stock_trace example_tablet [Sell 2, Sell 10] =
     example_tablet # stock_trace (example_tablet\<lparr>quantity := 3\<rparr>) [Sell 10]"
proof -
  have h: "0 \<le> quantity example_tablet"
    by (simp add: example_tablet_facts)
  have g: "GroceryProduct ''g1'' ''Milk'' (- 1) 10 ''2000-01-01'' =
      Inr (example_milk\<lparr>price := - 1\<rparr>)"
    by (simp add: GroceryProduct_def fromisoformat_def parse_nat_def digit_val_def
        valid_date_def days_in_month_def example_milk_def)
  have t: "map quantity
      (stock_trace example_tablet [Sell 2, Restock 4, Sell 10, Restock (- 1), Sell 7]) =
      [5, 3, 7, 7, 7, 0]"
    by (simp add: example_tablet_def ElectronicProduct_def apply_stock_op_def sell_def
        restock_def set_quantity_def)
  note raising =
    price_unchecked_stock_stays_nonnegative
      [of "''g1''" "''Milk''" "- 1" 10 2 "''LG''" "''M''" "''Cotton''" "''2000-01-01''"
          "example_milk\<lparr>price := - 1\<rparr>" example_tablet
          "[Sell 2, Restock 4, Sell 10, Restock (- 1), Sell 7]" "- 1" 10]
  note returning =
    price_unchecked_stock_stays_nonnegative
      [of "''g1''" "''Milk''" "- 1" 10 2 "''LG''" "''M''" "''Cotton''" "''2000-01-01''"
          "example_milk\<lparr>price := - 1\<rparr>" example_tablet "[Sell 10]" 4 2 "Sell 2" _
          "example_tablet\<lparr>quantity := 3\<rparr>"]
  note negative =
    price_unchecked_stock_stays_nonnegative
      [of "''g1''" "''Milk''" "- 1" 10 2 "''LG''" "''M''" "''Cotton''" "''2000-01-01''"
          "example_milk\<lparr>price := - 1\<rparr>" example_tablet "[Sell 2]" 4 "- 3" "Sell 10"
          InsufficientStockError]
  from raising h g t have a:
    "list_all (\<lambda>p'. 0 \<le> quantity p' \<and> price p' = 499.99)
       (stock_trace example_tablet [Sell 2, Restock 4, Sell 10, Restock (- 1), Sell 7])"
    "apply_stock_op example_tablet (Restock (- 1)) = Inl ValueError"
    "apply_stock_op example_tablet (Sell 10) = Inl InsufficientStockError"
    by (simp_all add: list_all_iff example_tablet_facts)
  from returning h have b:
    "apply_stock_op example_tablet (Restock 4) = Inr (example_tablet\<lparr>quantity := 9\<rparr>)"
    "apply_stock_op example_tablet (Sell 2) = Inr (example_tablet\<lparr>quantity := 3\<rparr>)"
    by (simp_all add: example_tablet_facts)
  from returning b(2) have b3: "stock_trace example_tablet [Sell 2, Sell 10] =
      example_tablet # stock_trace (example_tablet\<lparr>quantity := 3\<rparr>) [Sell 10]"
    by blast
  from negative h a(3) have c:
    "apply_stock_op example_tablet (Sell (- 3)) = Inl ValueError"
    "stock_trace example_tablet [Sell 10, Sell 2] =
       example_tablet # stock_trace example_tablet [Sell 2]"
    by simp_all
  show ?thesis
    by (intro conjI) (fact h g t a b b3 c | simp add: example_tablet_facts ElectronicProduct_def)+
qed

text \<open>
  The claim as the specification words it fails at construction: a product can be built
  with price 0 and stock \<open>-5\<close>, and a sale of 0 units, which raises, leaves it so.
\<close>

theorem product_built_with_bad_price_and_stock_counterexample:
  "example_monitor = ElectronicProduct ''e4'' ''Monitor'' 0 (- 5) 2 ''LG'' \<and>
   \<not> 0 < price example_monitor \<and> \<not> 0 \<le> quantity example_monitor \<and>
   stock_trace example_monitor [Sell 0] = [example_monitor, example_monitor]"
  by (simp add: example_monitor_def ElectronicProduct_def apply_stock_op_def sell_def)

section \<open>Dates as text\<close>

lemma digit_val_digit_char: "n < 10 \<Longrightarrow> digit_val (digit_char n) = Some n"
  by (simp add: digit_val_def digit_char_def)

lemma digit_val_zero: "digit_val CHR ''0'' = Some 0"
  by (simp add: digit_val_def)

lemma parse_digits_append:
  "parse_digits acc (xs @ ys) =
     (case parse_digits acc xs of None \<Rightarrow> None | Some a \<Rightarrow> parse_digits a ys)"
  by (induction xs arbitrary: acc) (simp_all split: option.splits)

lemma parse_digits_str_nat: "parse_digits 0 (str_nat n) = Some n"
proof (induction n rule: str_nat.induct)
  case (1 n)
  show ?case
  proof (cases "n < 10")
    case True
    then show ?thesis
      by (subst str_nat.simps) (simp add: digit_val_digit_char)
  next
    case False
    with 1 have ih: "parse_digits 0 (str_nat (n div 10)) = Some (n div 10)" by simp
    have "n mod 10 < 10" by simp
    then have d: "digit_val (digit_char (n mod 10)) = Some (n mod 10)"
      by (rule digit_val_digit_char)
    from False show ?thesis
      by (subst str_nat.simps) (simp add: parse_digits_append ih d)
  qed
qed

lemma parse_digits_zeros:
  "parse_digits 0 (replicate k CHR ''0'' @ s) = parse_digits 0 s"
  by (induction k) (simp_all add: digit_val_zero)

lemma str_nat_nonempty: "str_nat n \<noteq> []"
  by (subst str_nat.simps) simp

lemma parse_nat_zero_pad: "parse_nat (zero_pad w (str_nat n)) = Some n"
  by (simp add: parse_nat_def zero_pad_def str_nat_nonempty parse_digits_zeros parse_digits_str_nat)

lemma length_str_nat: "0 < k \<Longrightarrow> n < 10 ^ k \<Longrightarrow> length (str_nat n) \<le> k"
proof (induction n arbitrary: k rule: str_nat.induct)
  case (1 n)
  show ?case
  proof (cases "n < 10")
    case True
    with 1(2) show ?thesis by (subst str_nat.simps) simp
  next
    case False
    with 1(2,3) have k2: "1 < k" by (cases "k = 1") auto
    then obtain j where j: "k = Suc j" "0 < j" by (cases k) auto
    with 1(3) have "n div 10 < 10 ^ j" by (simp add: less_mult_imp_div_less mult.commute)
    with 1(1) [OF False j(2)] have "length (str_nat (n div 10)) \<le> j" by simp
    with False j show ?thesis by (subst str_nat.simps) simp
  qed
qed

lemma length_zero_pad: "length s \<le> w \<Longrightarrow> length (zero_pad w s) = w"
  by (simp add: zero_pad_def)

lemma fromisoformat_shape:
  assumes "length a = 4" and "length b = 2" and "length c = 2"
  shows "fromisoformat (a @ ''-'' @ b @ ''-'' @ c) =
    (case parse_nat a of None \<Rightarrow> None | Some y \<Rightarrow>
     (case parse_nat b of None \<Rightarrow> None | Some m \<Rightarrow>
      (case parse_nat c of None \<Rightarrow> None | Some dd \<Rightarrow>
         (let d = \<lparr>year = y, month = m, day = dd\<rparr>
          in if valid_date d then Some d else None))))"
proof -
  let ?s = "a @ ''-'' @ b @ ''-'' @ c"
  have l: "length ?s = 10" using assms by simp
  have n4: "?s ! 4 = CHR ''-''" using assms by (simp add: nth_append)
  have n7: "?s ! 7 = CHR ''-''" using assms by (simp add: nth_append)
  have t4: "take 4 ?s = a" using assms by simp
  have d5: "drop 5 ?s = b @ ''-'' @ c" using assms by simp
  have t2: "take 2 (drop 5 ?s) = b" unfolding d5 using assms by simp
  have d8: "drop 8 ?s = c" using assms by simp
  show ?thesis
    unfolding fromisoformat_def t2 d8 t4 using l n4 n7 by simp
qed

lemma days_in_month_le: "days_in_month y m \<le> 31"
  by (simp add: days_in_month_def)

lemma fromisoformat_isoformat:
  assumes "valid_date d"
  shows "fromisoformat (isoformat d) = Some d"
proof -
  from assms have y: "year d < 10 ^ 4" and m: "month d < 10 ^ 2" and dd: "day d < 10 ^ 2"
    using days_in_month_le [of "year d" "month d"]
    by (simp_all add: valid_date_def)
  have la: "length (zero_pad 4 (str_nat (year d))) = 4"
    by (rule length_zero_pad) (rule length_str_nat [OF _ y], simp)
  have lb: "length (zero_pad 2 (str_nat (month d))) = 2"
    by (rule length_zero_pad) (rule length_str_nat [OF _ m], simp)
  have lc: "length (zero_pad 2 (str_nat (day d))) = 2"
    by (rule length_zero_pad) (rule length_str_nat [OF _ dd], simp)
  have r: "\<lparr>year = year d, month = month d, day = day d\<rparr> = d"
    by (cases d) simp
  show ?thesis
    unfolding isoformat_def
    by (subst fromisoformat_shape [OF la lb lc]) (simp add: parse_nat_zero_pad assms Let_def r)
qed

lemma fromisoformat_valid: "fromisoformat s = Some d \<Longrightarrow> valid_date d"
  by (auto simp add: fromisoformat_def Let_def split: if_splits option.splits)


section \<open>Serialising and loading a product\<close>

lemma item_get_simps:
  "item_get ((k, v) # d) k' = (if k = k' then Inr v else item_get d k')"
  "item_get [] k' = Inl KeyError"
  by (simp_all add: item_get_def)

lemma and_then_simps:
  "and_then (Inr v) f = f v"
  "and_then (Inl e) f = Inl e"
  by (simp_all add: and_then_def)

lemma load_item_electronic:
  "load_item (to_dict (ElectronicProduct pid nm pr qty w b)) = Inr (ElectronicProduct pid nm pr qty w b)"
  by (simp add: load_item_def to_dict_def base_to_dict_def class_name_def ElectronicProduct_def
      get_str_def get_int_def get_float_def item_get_simps and_then_simps as_str_def as_int_def as_float_def)

lemma load_item_clothing:
  "load_item (to_dict (ClothingProduct pid nm pr qty sz m)) = Inr (ClothingProduct pid nm pr qty sz m)"
  by (simp add: load_item_def to_dict_def base_to_dict_def class_name_def ClothingProduct_def
      get_str_def get_int_def get_float_def item_get_simps and_then_simps as_str_def as_int_def as_float_def)

lemma load_item_grocery:
  assumes "valid_date d"
  shows "load_item (to_dict \<lparr>product_id = pid, name = nm, price = pr, quantity = qty, variant = Grocery d\<rparr>)
     = Inr \<lparr>product_id = pid, name = nm, price = pr, quantity = qty, variant = Grocery d\<rparr>"
  by (simp add: load_item_def to_dict_def base_to_dict_def class_name_def GroceryProduct_def
      get_str_def get_int_def get_float_def item_get_simps and_then_simps as_str_def as_int_def as_float_def
      fromisoformat_isoformat [OF assms])

lemma load_item_to_dict:
  assumes "constructible p"
  shows "load_item (to_dict p) = Inr p"
proof (cases p)
  case (fields pid nm pr qty v)
  show ?thesis
  proof (cases v)
    case (Electronic w b)
    with fields load_item_electronic [of pid nm pr qty w b] show ?thesis
      by (simp add: ElectronicProduct_def)
  next
    case (Clothing sz m)
    with fields load_item_clothing [of pid nm pr qty sz m] show ?thesis
      by (simp add: ClothingProduct_def)
  next
    case (Grocery d)
    with fields assms have "valid_date d" by (simp add: constructible_def)
    from load_item_grocery [OF this] fields Grocery show ?thesis by simp
  qed
qed


lemma constructors_constructible:
  "constructible (ElectronicProduct pid nm pr qty w b)"
  "constructible (ClothingProduct pid nm pr qty sz m)"
  "GroceryProduct pid nm pr qty e = Inr g \<Longrightarrow> constructible g"
  by (auto simp add: constructible_def ElectronicProduct_def ClothingProduct_def
      GroceryProduct_def fromisoformat_valid split: option.splits)

text \<open>
  The whole file: what \<^verbatim>\<open>save_inventory\<close> writes, \<^verbatim>\<open>load_inventory\<close> reads back
  into an empty dictionary as the products that were saved, in their order.
\<close>

lemma load_items_saved:
  assumes "distinct (map fst ps)"
    and "\<forall>kv \<in> set ps. product_id (snd kv) = fst kv \<and> constructible (snd kv)"
    and "set (map fst ps) \<inter> set (map fst (products st)) = {}"
  shows "load_items (map (\<lambda>kv. to_dict (snd kv)) ps) st =
    (Inr (), st\<lparr>products := products st @ ps\<rparr>)"
  using assms
proof (induction ps arbitrary: st)
  case Nil
  then show ?case by simp
next
  case (Cons kv ps)
  obtain k p where kv: "kv = (k, p)" by (cases kv)
  from Cons.prems(2) kv have id: "product_id p = k" and c: "constructible p" by simp_all
  from Cons.prems(3) kv have fresh: "k \<notin> set (map fst (products st))" by auto
  let ?st1 = "st\<lparr>products := products st @ [(k, p)]\<rparr>"
  have d: "distinct (map fst ps)" using Cons.prems(1) by simp
  have a: "\<forall>kv \<in> set ps. product_id (snd kv) = fst kv \<and> constructible (snd kv)"
    using Cons.prems(2) by simp
  have i: "set (map fst ps) \<inter> set (map fst (products ?st1)) = {}"
    using Cons.prems(1,3) kv by auto
  from Cons.IH [OF d a i]
  have "load_items (map (\<lambda>kv. to_dict (snd kv)) ps) ?st1 =
      (Inr (), st\<lparr>products := products st @ (k, p) # ps\<rparr>)"
    by simp
  then show ?case
    using kv id fresh by (simp add: load_item_to_dict [OF c] update_fresh del: set_map)
qed

lemma save_then_load:
  assumes "store_ok (products st)" and "list_all (\<lambda>kv. constructible (snd kv)) (products st)"
    and "inventory_writable st"
  shows "load_inventory ((snd (save_inventory st))\<lparr>products := []\<rparr>) = (Inr (), snd (save_inventory st))"
proof -
  from assms(1,2) have d: "distinct (map fst (products st))"
    and a: "\<forall>kv \<in> set (products st). product_id (snd kv) = fst kv \<and> constructible (snd kv)"
    by (simp_all add: store_ok_def list_all_iff)
  let ?st0 = "st\<lparr>inventory_file := Content (map (\<lambda>kv. to_dict (snd kv)) (products st)), products := []\<rparr>"
  have "load_items (map (\<lambda>kv. to_dict (snd kv)) (products st)) ?st0 =
      (Inr (), ?st0\<lparr>products := products ?st0 @ products st\<rparr>)"
    by (rule load_items_saved [OF d a]) simp
  with assms(3) show ?thesis
    by (simp add: load_inventory_def save_inventory_def)
qed


text \<open>
  C7. For a product built by any of the three constructors, the product read back by
  the loop of \<^verbatim>\<open>load_inventory\<close> from the dictionary \<^verbatim>\<open>to_dict\<close> gives is the
  product itself: the same subclass, chosen by the entry \<^verbatim>\<open>type\<close>, and the same
  fields.
\<close>

theorem to_dict_load_item_round_trip:
  "load_item (to_dict (ElectronicProduct pid nm pr qty w b)) =
     Inr (ElectronicProduct pid nm pr qty w b) \<and>
   load_item (to_dict (ClothingProduct pid nm pr qty sz m)) =
     Inr (ClothingProduct pid nm pr qty sz m) \<and>
   (GroceryProduct pid nm pr qty e = Inr g \<longrightarrow> load_item (to_dict g) = Inr g) \<and>
   (constructible p \<longrightarrow>
      load_item (to_dict p) = Inr p \<and>
      item_get (to_dict p) ''type'' = Inr (JStr (class_name p)))"
proof (intro conjI impI)
  show "load_item (to_dict (ElectronicProduct pid nm pr qty w b)) =
     Inr (ElectronicProduct pid nm pr qty w b)"
    by (rule load_item_electronic)
  show "load_item (to_dict (ClothingProduct pid nm pr qty sz m)) =
     Inr (ClothingProduct pid nm pr qty sz m)"
    by (rule load_item_clothing)
  show "load_item (to_dict g) = Inr g" if "GroceryProduct pid nm pr qty e = Inr g"
    using that by (intro load_item_to_dict constructors_constructible(3))
  show "load_item (to_dict p) = Inr p" if "constructible p"
    using that by (rule load_item_to_dict)
  show "item_get (to_dict p) ''type'' = Inr (JStr (class_name p))"
    by (cases "variant p") (simp_all add: to_dict_def base_to_dict_def item_get_simps)
qed

theorem to_dict_load_item_round_trip_witness:
  "GroceryProduct ''g1'' ''Milk'' 2.99 10 ''2000-01-01'' = Inr example_milk \<and>
   load_item (to_dict example_milk) = Inr example_milk \<and>
   constructible example_tablet \<and>
   load_item (to_dict example_tablet) = Inr example_tablet \<and>
   to_dict example_milk =
     [(''product_id'', JStr ''g1''), (''name'', JStr ''Milk''), (''price'', JNum 2.99),
      (''quantity'', JInt 10), (''type'', JStr ''GroceryProduct''),
      (''expiry_date'', JStr ''2000-01-01'')]"
proof -
  have g: "GroceryProduct ''g1'' ''Milk'' 2.99 10 ''2000-01-01'' = Inr example_milk"
    by (simp add: GroceryProduct_def fromisoformat_def parse_nat_def digit_val_def
        valid_date_def days_in_month_def example_milk_def)
  have c: "constructible example_tablet"
    by (simp add: constructible_def example_tablet_def ElectronicProduct_def)
  have n: "str_nat 2000 = ''2000''" "str_nat (Suc 0) = ''1''"
    by code_simp+
  have i: "isoformat \<lparr>year = 2000, month = Suc 0, day = Suc 0\<rparr> = ''2000-01-01''"
    by (simp add: isoformat_def zero_pad_def n)
  have d: "to_dict example_milk =
     [(''product_id'', JStr ''g1''), (''name'', JStr ''Milk''), (''price'', JNum 2.99),
      (''quantity'', JInt 10), (''type'', JStr ''GroceryProduct''),
      (''expiry_date'', JStr ''2000-01-01'')]"
    by (simp add: to_dict_def base_to_dict_def class_name_def example_milk_def i)
  from to_dict_load_item_round_trip
         [of "''g1''" "''Milk''" "2.99" 10 1 "''Samsung''" "''M''" "''Cotton''" "''2000-01-01''"
             example_milk example_tablet] g c d
  show ?thesis by simp
qed

section \<open>The sales ledger\<close>

lemma save_inventory_frame:
  "save_inventory st = (r, st') \<Longrightarrow>
     products st' = products st \<and> sales_log st' = sales_log st \<and> sales_file st' = sales_file st \<and>
     sales_writable st' = sales_writable st \<and> inventory_writable st' = inventory_writable st"
  by (auto simp add: save_inventory_def split: if_splits)

lemma sell_product_frame:
  assumes "sell_product pid q st = (r, st')"
  shows "sales_log st' = sales_log st \<and> sales_file st' = sales_file st \<and>
     sales_writable st' = sales_writable st \<and> inventory_writable st' = inventory_writable st"
proof (cases "get_product st pid")
  case None
  with assms show ?thesis by (simp add: sell_product_def)
next
  case (Some p)
  show ?thesis
  proof (cases "sell p q")
    case (Inl e)
    with Some assms show ?thesis by (simp add: sell_product_def)
  next
    case (Inr p')
    obtain r1 st1 where s: "save_inventory (st\<lparr>products := AList.update pid p' (products st)\<rparr>) = (r1, st1)"
      by (cases "save_inventory (st\<lparr>products := AList.update pid p' (products st)\<rparr>)")
    from Some Inr s assms have "st' = st1"
      by (cases r1) (simp_all add: sell_product_def)
    with save_inventory_frame [OF s] show ?thesis by simp
  qed
qed

lemma sale_id_sale_record:
  "sale_id (sale_record n pid nm q t now) = Some (JStr (''SALE_'' @ py_str (int (Suc n))))"
  by (simp add: sale_id_def sale_record_def add.commute)

lemma process_sale_success:
  assumes "process_sale pid q now st = (Inr t, st')"
  shows "\<exists>r. sales_log st' = sales_log st @ [r] \<and>
           sale_id r = Some (JStr (''SALE_'' @ py_str (int (Suc (length (sales_log st)))))) \<and>
           sales_file st' = Content (sales_log st') \<and> sales_writable st'"
proof -
  obtain r1 st1 where s: "sell_product pid q st = (r1, st1)"
    by (cases "sell_product pid q st")
  from sell_product_frame [OF s] have f: "sales_log st1 = sales_log st" by simp
  from assms s obtain tp where r1: "r1 = Inr tp"
    by (cases r1) (simp_all add: process_sale_def)
  from assms s r1 obtain p where p: "get_product st1 pid = Some p"
    by (cases "get_product st1 pid") (simp_all add: process_sale_def)
  let ?rec = "sale_record (length (sales_log st1)) pid (name p) q tp now"
  from assms s r1 p have w: "sales_writable st1"
    by (auto simp add: process_sale_def save_sales_def split: if_splits)
  with assms s r1 p have st': "st' = st1\<lparr>sales_log := sales_log st1 @ [?rec], sales_file := Content (sales_log st1 @ [?rec])\<rparr>"
    by (auto simp add: process_sale_def save_sales_def)
  show ?thesis
    using st' f w by (simp add: sale_id_sale_record)
qed

lemma load_sales_reload:
  "sales_file st = Content (sales_log st) \<Longrightarrow> load_sales (st\<lparr>sales_log := l\<rparr>) = (Inr (), st)"
  by (simp add: load_sales_def)

lemma Sales_init_reload:
  "sales_file st = Content (sales_log st) \<Longrightarrow> Sales_init (st\<lparr>sales_log := l\<rparr>) = (Inr (), st)"
  by (simp add: Sales_init_def load_sales_def)

lemma Sales_init_same:
  "sales_file st = Content (sales_log st) \<Longrightarrow> Sales_init st = (Inr (), st)"
  by (simp add: Sales_init_def load_sales_def)

lemma process_sales_ids:
  assumes "process_sales reqs st = (Inr ts, st')"
  shows "length ts = length reqs \<and>
     map sale_id (sales_log st') =
       map sale_id (sales_log st) @
       map (\<lambda>i. Some (JStr (''SALE_'' @ py_str (int i))))
         [Suc (length (sales_log st))..<Suc (length (sales_log st) + length reqs)] \<and>
     (reqs \<noteq> [] \<longrightarrow> sales_file st' = Content (sales_log st'))"
  using assms
proof (induction reqs arbitrary: st ts st')
  case Nil
  then show ?case by simp
next
  case (Cons req reqs)
  obtain pid q now where req: "req = (pid, q, now)" by (cases req)
  obtain r1 st1 where s1: "process_sale pid q now st = (r1, st1)"
    by (cases "process_sale pid q now st")
  from Cons.prems req s1 obtain t where r1: "r1 = Inr t"
    by (cases r1) simp_all
  obtain r2 st2 where s2: "process_sales reqs st1 = (r2, st2)"
    by (cases "process_sales reqs st1")
  from Cons.prems req s1 r1 s2 obtain ts' where r2: "r2 = Inr ts'"
    by (cases r2) simp_all
  from Cons.prems req s1 r1 s2 r2 have e: "ts = t # ts'" "st' = st2" by simp_all
  from process_sale_success [OF s1 [unfolded r1]]
  obtain r where r: "sales_log st1 = sales_log st @ [r]"
    "sale_id r = Some (JStr (''SALE_'' @ py_str (int (Suc (length (sales_log st))))))"
    "sales_file st1 = Content (sales_log st1)" by blast
  from Cons.IH [OF s2 [unfolded r2]]
  have ih: "length ts' = length reqs"
    "map sale_id (sales_log st2) = map sale_id (sales_log st1) @
       map (\<lambda>i. Some (JStr (''SALE_'' @ py_str (int i))))
         [Suc (length (sales_log st1))..<Suc (length (sales_log st1) + length reqs)]"
    "reqs \<noteq> [] \<longrightarrow> sales_file st2 = Content (sales_log st2)" by simp_all
  have f: "sales_file st2 = Content (sales_log st2)"
  proof (cases reqs)
    case Nil
    with s2 r(3) show ?thesis by simp
  next
    case (Cons a list)
    with ih(3) show ?thesis by simp
  qed
  let ?n = "length (sales_log st)"
  have u: "[Suc ?n..<Suc (?n + length (req # reqs))] = Suc ?n # [Suc (Suc ?n)..<Suc (Suc ?n + length reqs)]"
    by (simp add: upt_rec)
  show ?case
    unfolding e u using ih(1,2) r(1,2) f by simp
qed



lemma py_str_small:
  "py_str 1 = ''1''" "py_str 2 = ''2''" "py_str 3 = ''3''"
  by code_simp+

lemma example_first_sale:
  "process_sale ''e3'' 2 ''2024-06-01T10:00:00'' example_system =
     (Inr (499.99 * 2),
      example_system\<lparr>products := [(''e3'', example_tablet\<lparr>quantity := 3\<rparr>), (''g1'', example_milk)],
        inventory_file :=
          Content [to_dict (example_tablet\<lparr>quantity := 3\<rparr>), to_dict example_milk],
        sales_log :=
          [sale_record 0 ''e3'' ''Tablet'' 2 (499.99 * 2) ''2024-06-01T10:00:00''],
        sales_file :=
          Content [sale_record 0 ''e3'' ''Tablet'' 2 (499.99 * 2) ''2024-06-01T10:00:00'']\<rparr>)"
  by (simp add: process_sale_def sell_product_def sell_def set_quantity_def save_inventory_def
      save_sales_def get_product_def example_system_def example_tablet_def ElectronicProduct_def)

lemma example_three_sales:
  "fst (process_sales example_sales example_system) = Inr [499.99 * 2, 2.99, 499.99 * 3]"
  "map sale_id (sales_log (snd (process_sales example_sales example_system))) =
     [Some (JStr ''SALE_1''), Some (JStr ''SALE_2''), Some (JStr ''SALE_3'')]"
  by (simp_all add: example_sales_def process_sale_def sell_product_def sell_def set_quantity_def
      save_inventory_def save_sales_def get_product_def example_system_def example_tablet_def
      ElectronicProduct_def example_milk_def sale_id_def sale_record_def py_str_small)

text \<open>
  C8. A call of \<^verbatim>\<open>process_sale\<close> that returns has appended one record to the log;
  the record's \<^verbatim>\<open>sale_id\<close> is \<^verbatim>\<open>SALE_\<close> followed by the length of the log after
  the call; the sales file then holds the log, so that \<^verbatim>\<open>load_sales\<close>, and a new
  \<^verbatim>\<open>Sales\<close> object, whatever log \<open>l\<close> was in memory before the read, end with the
  same log. From an empty log, a run of \<open>n\<close> calls that all return leaves \<open>n\<close> records
  whose ids are \<^verbatim>\<open>SALE_1\<close> to \<^verbatim>\<open>SALE_n\<close>, in that order, and the file holds them.
\<close>

theorem process_sale_appends_sequential_id:
  "(process_sale pid q now st = (Inr t, st') \<longrightarrow>
      (\<exists>r. sales_log st' = sales_log st @ [r] \<and>
           sale_id r = Some (JStr (''SALE_'' @ py_str (int (length (sales_log st')))))) \<and>
      sales_file st' = Content (sales_log st') \<and>
      Sales_init st' = (Inr (), st') \<and>
      Sales_init (st'\<lparr>sales_log := l\<rparr>) = (Inr (), st') \<and>
      load_sales (st'\<lparr>sales_log := l\<rparr>) = (Inr (), st')) \<and>
   (sales_log st = [] \<and> process_sales reqs st = (Inr ts, st'') \<longrightarrow>
      length (sales_log st'') = length reqs \<and>
      map sale_id (sales_log st'') =
        map (\<lambda>i. Some (JStr (''SALE_'' @ py_str (int i)))) [1..<Suc (length reqs)] \<and>
      (reqs \<noteq> [] \<longrightarrow>
         sales_file st'' = Content (sales_log st'') \<and>
         Sales_init st'' = (Inr (), st'') \<and>
         Sales_init (st''\<lparr>sales_log := l\<rparr>) = (Inr (), st'') \<and>
         load_sales (st''\<lparr>sales_log := l\<rparr>) = (Inr (), st'')))"
proof (intro conjI impI)
  assume a: "process_sale pid q now st = (Inr t, st')"
  from process_sale_success [OF a]
  obtain r where r: "sales_log st' = sales_log st @ [r]"
    "sale_id r = Some (JStr (''SALE_'' @ py_str (int (Suc (length (sales_log st))))))"
    "sales_file st' = Content (sales_log st')" by blast
  from r(1,2) show "\<exists>r. sales_log st' = sales_log st @ [r] \<and>
           sale_id r = Some (JStr (''SALE_'' @ py_str (int (length (sales_log st')))))"
    by simp
  from r(3) show "sales_file st' = Content (sales_log st')" .
  from r(3) show "Sales_init st' = (Inr (), st')" by (rule Sales_init_same)
  from r(3) show "Sales_init (st'\<lparr>sales_log := l\<rparr>) = (Inr (), st')" by (rule Sales_init_reload)
  from r(3) show "load_sales (st'\<lparr>sales_log := l\<rparr>) = (Inr (), st')" by (rule load_sales_reload)
next
  assume b: "sales_log st = [] \<and> process_sales reqs st = (Inr ts, st'')"
  then have e: "sales_log st = []" and p: "process_sales reqs st = (Inr ts, st'')" by simp_all
  from process_sales_ids [OF p] e
  have m: "map sale_id (sales_log st'') =
        map (\<lambda>i. Some (JStr (''SALE_'' @ py_str (int i)))) [1..<Suc (length reqs)]"
    and f: "reqs \<noteq> [] \<longrightarrow> sales_file st'' = Content (sales_log st'')"
    by simp_all
  from m show "map sale_id (sales_log st'') =
        map (\<lambda>i. Some (JStr (''SALE_'' @ py_str (int i)))) [1..<Suc (length reqs)]" .
  from m have "length (map sale_id (sales_log st'')) =
      length (map (\<lambda>i. Some (JStr (''SALE_'' @ py_str (int i)))) [1..<Suc (length reqs)])"
    by (rule arg_cong)
  then show "length (sales_log st'') = length reqs"
    by (simp only: length_map length_upt diff_Suc_1)
  show "sales_file st'' = Content (sales_log st'')" if "reqs \<noteq> []"
    using f that by simp
  show "Sales_init st'' = (Inr (), st'')" if "reqs \<noteq> []"
    using f that by (simp add: Sales_init_same)
  show "Sales_init (st''\<lparr>sales_log := l\<rparr>) = (Inr (), st'')" if "reqs \<noteq> []"
    using f that by (simp add: Sales_init_reload)
  show "load_sales (st''\<lparr>sales_log := l\<rparr>) = (Inr (), st'')" if "reqs \<noteq> []"
    using f that by (simp add: load_sales_reload)
qed

theorem process_sale_appends_sequential_id_witness:
  "fst (process_sale ''e3'' 2 ''2024-06-01T10:00:00'' example_system) = Inr (499.99 * 2) \<and>
   map sale_id (sales_log (snd (process_sale ''e3'' 2 ''2024-06-01T10:00:00'' example_system))) =
     [Some (JStr ''SALE_1'')] \<and>
   Sales_init (snd (process_sale ''e3'' 2 ''2024-06-01T10:00:00'' example_system)) =
     (Inr (), snd (process_sale ''e3'' 2 ''2024-06-01T10:00:00'' example_system)) \<and>
   Sales_init
     ((snd (process_sale ''e3'' 2 ''2024-06-01T10:00:00'' example_system))\<lparr>sales_log := []\<rparr>) =
     (Inr (), snd (process_sale ''e3'' 2 ''2024-06-01T10:00:00'' example_system)) \<and>
   sales_log example_system = [] \<and>
   fst (process_sales example_sales example_system) = Inr [499.99 * 2, 2.99, 499.99 * 3] \<and>
   map sale_id (sales_log (snd (process_sales example_sales example_system))) =
     [Some (JStr ''SALE_1''), Some (JStr ''SALE_2''), Some (JStr ''SALE_3'')] \<and>
   example_sales \<noteq> [] \<and>
   Sales_init (snd (process_sales example_sales example_system)) =
     (Inr (), snd (process_sales example_sales example_system)) \<and>
   map sale_id (sales_log (snd (Sales_init
     ((snd (process_sales example_sales example_system))\<lparr>sales_log := []\<rparr>)))) =
     [Some (JStr ''SALE_1''), Some (JStr ''SALE_2''), Some (JStr ''SALE_3'')] \<and>
   map sale_id (sales_log (snd (load_sales
     ((snd (process_sales example_sales example_system))\<lparr>sales_log := []\<rparr>)))) =
     [Some (JStr ''SALE_1''), Some (JStr ''SALE_2''), Some (JStr ''SALE_3'')]"
proof -
  let ?one = "process_sale ''e3'' 2 ''2024-06-01T10:00:00'' example_system"
  let ?three = "process_sales example_sales example_system"
  have one: "?one = (Inr (499.99 * 2), snd ?one)"
    by (simp add: example_first_sale)
  have f1: "fst ?one = Inr (499.99 * 2)"
    by (simp add: example_first_sale)
  have ids: "map sale_id (sales_log (snd ?one)) = [Some (JStr ''SALE_1'')]"
    by (simp add: example_first_sale sale_id_def sale_record_def py_str_small)
  have three: "?three = (Inr [499.99 * 2, 2.99, 499.99 * 3], snd ?three)"
    using example_three_sales(1) by (metis prod.collapse)
  have ne: "example_sales \<noteq> []"
    by (simp add: example_sales_def)
  from process_sale_appends_sequential_id
         [of "''e3''" 2 "''2024-06-01T10:00:00''" example_system "499.99 * 2" "snd ?one" "[]"
             example_sales "[499.99 * 2, 2.99, 499.99 * 3]" "snd ?three"]
       one three ne example_system_facts(6)
  have r: "Sales_init (snd ?one) = (Inr (), snd ?one)"
    "Sales_init ((snd ?one)\<lparr>sales_log := []\<rparr>) = (Inr (), snd ?one)"
    "Sales_init (snd ?three) = (Inr (), snd ?three)"
    "Sales_init ((snd ?three)\<lparr>sales_log := []\<rparr>) = (Inr (), snd ?three)"
    "load_sales ((snd ?three)\<lparr>sales_log := []\<rparr>) = (Inr (), snd ?three)"
    by simp_all
  show ?thesis
    unfolding r using f1 ids ne example_three_sales example_system_facts(6) by simp
qed

end
